theory Spec2Isabelle
  imports Main
begin

section \<open>Values, descriptors, completions\<close>

text \<open>
  The module \<^verbatim>\<open>browser-realm.ts\<close> wires two object graphs together: the trusted (raw)
  realm and the untrusted (secure) realm. An object or function is modelled by its
  identity inside its realm. Two further values stand for the errors that raw-realm code
  creates while the evaluator runs.
\<close>

datatype realm = Raw | Secure

type_synonym pname = string

datatype val =
    Undefined
  | Null
  | Str string
  | Obj realm nat
  | RawError val
  | RawTypeError

text \<open>
  \<open>RawError m\<close> is the generic raw-realm error made from the message \<open>m\<close>;
  \<open>RawTypeError\<close> is the \<^verbatim>\<open>TypeError\<close> that the engine raises inside raw-realm code
  when \<^verbatim>\<open>null\<close> or \<^verbatim>\<open>undefined\<close> is destructured.
\<close>

datatype descriptor = Data val | Accessor val val

type_synonym descriptors = "(pname \<times> descriptor) list"

datatype 'a completion = Normal 'a | Throw val

text \<open>\<^verbatim>\<open>delete descriptors[key]\<close> on a descriptor map.\<close>

definition deleteKey :: "pname \<Rightarrow> descriptors \<Rightarrow> descriptors" where
  "deleteKey key d = filter (\<lambda>p. fst p \<noteq> key) d"

definition keys :: "descriptors \<Rightarrow> pname set" where
  "keys d = fst ` set d"

section \<open>The host and the reflective primitives\<close>

text \<open>
  The browser and the primitives imported from \<^verbatim>\<open>./shared\<close> are parameters of the model.
  \<open>readProperty\<close> is a property read \<^verbatim>\<open>o[key]\<close> on a global object or on the fresh
  realm before any untrusted code has run (giving \<open>Undefined\<close> for a missing property);
  \<open>getOf\<close> is a property read on a value thrown by untrusted code, which may run
  untrusted code and throw; \<open>callEval f src\<close> applies the indirect evaluator \<open>f\<close> to a
  source text; \<open>iframeWindow\<close> is \<^verbatim>\<open>iframe.contentWindow.window\<close> of the iframe that the
  call attaches.
\<close>

record host =
  globalWindow :: val
  globalDocument :: val
  iframeWindow :: val
  ReflectGetPrototypeOf :: "val \<Rightarrow> val"
  getOwnPropertyDescriptors :: "val \<Rightarrow> descriptors"
  readProperty :: "val \<Rightarrow> pname \<Rightarrow> val"
  callEval :: "val \<Rightarrow> string \<Rightarrow> val completion"
  getOf :: "val \<Rightarrow> pname \<Rightarrow> val completion"
  construct :: "val \<Rightarrow> val list \<Rightarrow> val completion"

text \<open>
  Modelled from the spec: \<^verbatim>\<open>ErrorCreate\<close> of \<^verbatim>\<open>./shared\<close> (create-error-from-message), which
  is not among the sources. It creates a generic raw-realm error carrying the message.
\<close>

definition ErrorCreate :: "val \<Rightarrow> val" where
  "ErrorCreate message = RawError message"

section \<open>The membrane\<close>

text \<open>
  Modelled from the spec: the class \<^verbatim>\<open>SecureEnvironment\<close> of \<^verbatim>\<open>./environment\<close>, which is not
  among the sources. Section 4.3 of the specification gives its contract:
  \<^verbatim>\<open>remap(secureNode, rawNode, descriptors)\<close> registers a bidirectional correspondence, and
  \<^verbatim>\<open>getSecureValue(raw)\<close> and \<^verbatim>\<open>getRawRef(secure)\<close> resolve a value in the opposite
  direction, returning \<^verbatim>\<open>undefined\<close> or failing when no correspondence is registered.
  A registration is the triple (secureNode, rawNode, descriptors); the membrane keeps the
  triples in the order of submission, next to its two mapping tables.
\<close>

record membrane =
  rawGlobalThis :: val
  secureGlobalThis :: val
  distortionMap :: "(val \<times> val) list option"
  secureToRaw :: "val \<rightharpoonup> val"
  rawToSecure :: "val \<rightharpoonup> val"
  registrations :: "(val \<times> val \<times> descriptors) list"

text \<open>Modelled from the spec: the constructor call \<^verbatim>\<open>new SecureEnvironment({...})\<close>.\<close>

definition newSecureEnvironment ::
  "val \<Rightarrow> val \<Rightarrow> (val \<times> val) list option \<Rightarrow> membrane" where
  "newSecureEnvironment rawG secureG dm =
     \<lparr>rawGlobalThis = rawG, secureGlobalThis = secureG, distortionMap = dm,
      secureToRaw = Map.empty, rawToSecure = Map.empty, registrations = []\<rparr>"

text \<open>Modelled from the spec: \<^verbatim>\<open>remap(secureNode, rawNode, descriptors)\<close>.\<close>

definition remap :: "membrane \<Rightarrow> val \<Rightarrow> val \<Rightarrow> descriptors \<Rightarrow> membrane" where
  "remap env secureNode rawNode d =
     env\<lparr>secureToRaw := (secureToRaw env)(secureNode \<mapsto> rawNode),
         rawToSecure := (rawToSecure env)(rawNode \<mapsto> secureNode),
         registrations := registrations env @ [(secureNode, rawNode, d)]\<rparr>"

text \<open>
  Modelled from the spec: \<^verbatim>\<open>getRawRef(secure)\<close>, a lookup in the secure-to-raw table.
  \<open>None\<close> is the outcome for a value without a registered raw counterpart.
\<close>

definition getRawRef :: "membrane \<Rightarrow> val \<Rightarrow> val option" where
  "getRawRef env secureValue = secureToRaw env secureValue"

text \<open>
  Modelled from the spec: \<^verbatim>\<open>getSecureValue(raw)\<close>, a lookup in the raw-to-secure table,
  \<^verbatim>\<open>undefined\<close> for a value without a registered secure counterpart.
\<close>

definition getSecureValue :: "membrane \<Rightarrow> val \<Rightarrow> val" where
  "getSecureValue env rawValue =
     (case rawToSecure env rawValue of Some s \<Rightarrow> s | None \<Rightarrow> Undefined)"

section \<open>Calls to the collaborators\<close>

text \<open>
  The construction and the evaluator act on the document, on the iframe, on the secure
  evaluator and on the membrane. The model records these calls, in the order in which
  the code makes them.
\<close>

datatype event =
    CreateElement string
  | SetAttribute string string
  | SetStyle string string
  | AppendChild
  | CallEval val string
  | IframeRemove
  | NewSecureEnvironment val val
  | Remap val val descriptors
  | GetSecureValue val
  | SetPrototypeOf val val
  | GetRawRef val
  | Construct val "val list"
  | CreateError val

fun isRemap :: "event \<Rightarrow> bool" where
  "isRemap (Remap s r d) = True"
| "isRemap e = False"

section \<open>Module-level constants (lines 12 to 18)\<close>

record module_consts =
  rawWindow :: val
  rawDocument :: val
  rawWindowProto :: val
  rawWindowPropertiesProto :: val
  rawEventTargetProto :: val

definition loadModule :: "host \<Rightarrow> module_consts" where
  "loadModule h =
     (let rw = globalWindow h;
          rd = globalDocument h;
          rwp = ReflectGetPrototypeOf h rw;
          rwpp = ReflectGetPrototypeOf h rwp;
          ret = ReflectGetPrototypeOf h rwpp
      in \<lparr>rawWindow = rw, rawDocument = rd, rawWindowProto = rwp,
          rawWindowPropertiesProto = rwpp, rawEventTargetProto = ret\<rparr>)"

section \<open>createSecureEnvironment (lines 20 to 82)\<close>

text \<open>The local constants of the function, as they stand after line 56.\<close>

record locals =
  secureWindow :: val
  secureIndirectEval :: val
  secureDocument :: val
  secureWindowProto :: val
  secureWindowPropertiesProto :: val
  secureEventTargetProto :: val
  rawDocumentProto :: val
  rawGlobalThisDescriptors :: descriptors
  rawWindowProtoDescriptors :: descriptors
  rawWindowPropertiesProtoDescriptors :: descriptors
  rawEventTargetProtoDescriptors :: descriptors

text \<open>Lines 22 to 27: the iframe is created, configured and attached.\<close>

definition attachIframe :: "event list" where
  "attachIframe =
     [CreateElement ''iframe'',
      SetAttribute ''sandbox'' ''allow-same-origin allow-scripts'',
      SetStyle ''display'' ''none'',
      AppendChild]"

text \<open>Lines 53 to 56: the four \<^verbatim>\<open>delete\<close> statements.\<close>

definition removeProblematic :: "descriptors \<Rightarrow> descriptors" where
  "removeProblematic d =
     deleteKey ''window'' (deleteKey ''document'' (deleteKey ''EventTarget''
       (deleteKey ''location'' d)))"

text \<open>
  Lines 22 to 56: provisioning of the realm, capture of both prototype spines and of the
  raw descriptors, and the filter. A throw of the forced evaluation of line 33 leaves the
  function at once; the other host calls of the construction are taken to return. The
  result holds the local constants and the calls made so far.
\<close>

definition provisionAndCapture ::
  "module_consts \<Rightarrow> host \<Rightarrow> (locals \<times> event list) completion" where
  "provisionAndCapture m h =
     (let sw = iframeWindow h;
          sEval = readProperty h sw ''eval''
      in case callEval h sEval ''window'' of
           Throw x \<Rightarrow> Throw x
         | Normal ignored \<Rightarrow>
             (let swp = ReflectGetPrototypeOf h sw;
                  swpp = ReflectGetPrototypeOf h swp
              in Normal
                (\<lparr>secureWindow = sw,
                  secureIndirectEval = sEval,
                  secureDocument = readProperty h sw ''document'',
                  secureWindowProto = swp,
                  secureWindowPropertiesProto = swpp,
                  secureEventTargetProto = ReflectGetPrototypeOf h swpp,
                  rawDocumentProto = ReflectGetPrototypeOf h (rawDocument m),
                  rawGlobalThisDescriptors =
                    removeProblematic (getOwnPropertyDescriptors h (rawWindow m)),
                  rawWindowProtoDescriptors =
                    getOwnPropertyDescriptors h (rawWindowProto m),
                  rawWindowPropertiesProtoDescriptors =
                    getOwnPropertyDescriptors h (rawWindowPropertiesProto m),
                  rawEventTargetProtoDescriptors =
                    getOwnPropertyDescriptors h (rawEventTargetProto m)\<rparr>,
                 attachIframe @ [CallEval sEval ''window'', IframeRemove])))"

text \<open>
  The state that the registration phase updates: the global descriptor set (the loop
  deletes from it), the membrane, and the calls made so far.
\<close>

record cstate =
  globalDescriptors :: descriptors
  membraneOf :: membrane
  calls :: "event list"

text \<open>One call \<^verbatim>\<open>env.remap(a, b, d)\<close>: the membrane is updated and the call is recorded.\<close>

definition callRemap :: "val \<Rightarrow> val \<Rightarrow> descriptors \<Rightarrow> cstate \<Rightarrow> cstate" where
  "callRemap a b d st =
     st\<lparr>membraneOf := remap (membraneOf st) a b d, calls := calls st @ [Remap a b d]\<rparr>"

text \<open>
  Lines 69 to 75: the loop over \<^verbatim>\<open>ReflectiveDOMObjectNames\<close>. The list comes from
  \<^verbatim>\<open>./shared\<close> and is a parameter. The arguments of \<^verbatim>\<open>env.remap\<close> are in the order of
  line 73: the value read from the raw window first, the value read from the secure
  window second.
\<close>

fun remapReflective ::
  "host \<Rightarrow> val \<Rightarrow> val \<Rightarrow> pname list \<Rightarrow> cstate \<Rightarrow> cstate" where
  "remapReflective h rw sw [] st = st"
| "remapReflective h rw sw (key # rest) st =
     (if readProperty h rw key \<noteq> Undefined \<and> readProperty h sw key \<noteq> Undefined
      then remapReflective h rw sw rest
             (callRemap (readProperty h rw key) (readProperty h sw key)
                (getOwnPropertyDescriptors h (readProperty h rw key))
                (st\<lparr>globalDescriptors := deleteKey key (globalDescriptors st)\<rparr>))
      else remapReflective h rw sw rest st)"

text \<open>Lines 58 to 81: the membrane is created and the registrations are made.\<close>

definition registerAll ::
  "pname list \<Rightarrow> module_consts \<Rightarrow> host \<Rightarrow> (val \<times> val) list option \<Rightarrow>
     locals \<Rightarrow> event list \<Rightarrow> cstate" where
  "registerAll ReflectiveDOMObjectNames m h dm l t =
     (let st0 = \<lparr>globalDescriptors = rawGlobalThisDescriptors l,
                 membraneOf = newSecureEnvironment (rawWindow m) (secureWindow l) dm,
                 calls = t @ [NewSecureEnvironment (rawWindow m) (secureWindow l)]\<rparr>;
          st1 = callRemap (secureDocument l) (rawDocument m) [] st0;
          wrappedProto = getSecureValue (membraneOf st1) (rawDocumentProto l);
          st2 = st1\<lparr>calls := calls st1 @
                   [GetSecureValue (rawDocumentProto l),
                    SetPrototypeOf (secureDocument l) wrappedProto]\<rparr>;
          st3 = remapReflective h (rawWindow m) (secureWindow l)
                  ReflectiveDOMObjectNames st2;
          st4 = callRemap (secureEventTargetProto l) (rawEventTargetProto m)
                  (rawEventTargetProtoDescriptors l) st3;
          st5 = callRemap (secureWindowPropertiesProto l) (rawWindowPropertiesProto m)
                  (rawWindowPropertiesProtoDescriptors l) st4;
          st6 = callRemap (secureWindowProto l) (rawWindowProto m)
                  (rawWindowProtoDescriptors l) st5
      in callRemap (secureWindow l) (rawWindow m) (globalDescriptors st6) st6)"

text \<open>What the returned closure captures, and the calls made so far.\<close>

record closure =
  env :: membrane
  indirectEval :: val
  trace :: "event list"

definition createSecureEnvironment ::
  "pname list \<Rightarrow> module_consts \<Rightarrow> host \<Rightarrow> (val \<times> val) list option \<Rightarrow> closure completion" where
  "createSecureEnvironment ReflectiveDOMObjectNames m h dm =
     (case provisionAndCapture m h of
        Throw x \<Rightarrow> Throw x
      | Normal (l, t) \<Rightarrow>
          (let st = registerAll ReflectiveDOMObjectNames m h dm l t
           in Normal \<lparr>env = membraneOf st, indirectEval = secureIndirectEval l,
                      trace = calls st\<rparr>))"

section \<open>The returned evaluator (lines 84 to 104)\<close>

text \<open>
  Line 92, \<^verbatim>\<open>const { message, constructor } = e\<close>: destructuring \<^verbatim>\<open>null\<close> or
  \<^verbatim>\<open>undefined\<close> raises a \<^verbatim>\<open>TypeError\<close>; otherwise \<^verbatim>\<open>message\<close> is read first and
  \<^verbatim>\<open>constructor\<close> second, and a throwing read leaves the statement.
\<close>

definition destructure :: "host \<Rightarrow> val \<Rightarrow> (val \<times> val) completion" where
  "destructure h e =
     (if e = Undefined \<or> e = Null then Throw RawTypeError
      else case getOf h e ''message'' of
             Throw x \<Rightarrow> Throw x
           | Normal message \<Rightarrow>
               (case getOf h e ''constructor'' of
                  Throw x \<Rightarrow> Throw x
                | Normal ctor \<Rightarrow> Normal (message, ctor)))"

text \<open>
  The closure. Line 92 is outside the inner \<^verbatim>\<open>try\<close>, so what it throws leaves the
  evaluator. Inside the inner \<^verbatim>\<open>try\<close>, a constructor without a raw counterpart ends in
  the \<^verbatim>\<open>catch\<close> branch (\<^verbatim>\<open>getRawRef\<close> fails, or it returns \<^verbatim>\<open>undefined\<close> and
  \<^verbatim>\<open>construct\<close> rejects it), and so does a throwing \<^verbatim>\<open>construct\<close>.
\<close>

definition evaluator :: "host \<Rightarrow> closure \<Rightarrow> string \<Rightarrow> unit completion \<times> closure" where
  "evaluator h sb sourceText =
     (let sb1 = sb\<lparr>trace := trace sb @ [CallEval (indirectEval sb) sourceText]\<rparr>
      in case callEval h (indirectEval sb) sourceText of
           Normal v \<Rightarrow> (Normal (), sb1)
         | Throw e \<Rightarrow>
             (case destructure h e of
                Throw x \<Rightarrow> (Throw x, sb1)
              | Normal (message, ctor) \<Rightarrow>
                  (case getRawRef (env sb1) ctor of
                     None \<Rightarrow>
                       (Throw (ErrorCreate message),
                        sb1\<lparr>trace := trace sb1 @ [GetRawRef ctor, CreateError message]\<rparr>)
                   | Some rawErrorConstructor \<Rightarrow>
                       (case construct h rawErrorConstructor [message] of
                          Normal rawError \<Rightarrow>
                            (Throw rawError,
                             sb1\<lparr>trace := trace sb1 @
                                   [GetRawRef ctor,
                                    Construct rawErrorConstructor [message]]\<rparr>)
                        | Throw ignored \<Rightarrow>
                            (Throw (ErrorCreate message),
                             sb1\<lparr>trace := trace sb1 @
                                   [GetRawRef ctor,
                                    Construct rawErrorConstructor [message],
                                    CreateError message]\<rparr>)))))"

section \<open>Notions used by the statements\<close>

text \<open>
  The denylist in the specification's words: the navigation/location property, the
  event-dispatch base constructor, the document reference and the global-self reference.
\<close>

definition denylist :: "pname set" where
  "denylist = {''location'', ''EventTarget'', ''document'', ''window''}"

text \<open>The names of the list that are defined values on both windows.\<close>

definition presentOnBoth :: "host \<Rightarrow> val \<Rightarrow> val \<Rightarrow> pname list \<Rightarrow> pname list" where
  "presentOnBoth h rw sw names =
     filter (\<lambda>key. readProperty h rw key \<noteq> Undefined \<and> readProperty h sw key \<noteq> Undefined)
       names"

text \<open>The \<^verbatim>\<open>remap\<close> call that line 73 makes for one name.\<close>

definition reflectiveCall :: "host \<Rightarrow> val \<Rightarrow> val \<Rightarrow> pname \<Rightarrow> event" where
  "reflectiveCall h rw sw key =
     Remap (readProperty h rw key) (readProperty h sw key)
       (getOwnPropertyDescriptors h (readProperty h rw key))"

section \<open>A concrete host\<close>

text \<open>
  A small browser. In either realm object 0 is the window, 1 the document, 2, 3 and 4 the
  prototype spine of the window, 5 the prototype of the document, 10 the \<^verbatim>\<open>Array\<close>
  constructor, 11 the \<^verbatim>\<open>TypeError\<close> constructor and 20 the \<^verbatim>\<open>eval\<close> function.
  \<^verbatim>\<open>SharedArrayBuffer\<close> (object 12) exists in the raw realm only. Untrusted code can throw
  \<^verbatim>\<open>null\<close>, a \<^verbatim>\<open>TypeError\<close> (secure object 30), an instance of a class of its own (secure
  object 31, of constructor 40) and an object whose \<^verbatim>\<open>message\<close> getter throws the secure
  object 33 (secure object 32, whose constructor is the secure \<^verbatim>\<open>Object\<close>, object 41).
\<close>

fun exProto :: "val \<Rightarrow> val" where
  "exProto (Obj r n) =
     (if n = 0 then Obj r 2 else if n = 2 then Obj r 3 else if n = 3 then Obj r 4
      else if n = 1 then Obj r 5 else Null)"
| "exProto v = Null"

fun exDescriptors :: "val \<Rightarrow> descriptors" where
  "exDescriptors (Obj r n) =
     (if n = 0 then
        [(''location'', Accessor (Obj r 50) (Obj r 51)),
         (''document'', Accessor (Obj r 52) Undefined),
         (''window'', Accessor (Obj r 53) Undefined),
         (''EventTarget'', Data (Obj r 7)),
         (''Array'', Data (Obj r 10)),
         (''TypeError'', Data (Obj r 11)),
         (''name'', Data (Str []))]
      else if n = 10 then [(''isArray'', Data (Obj r 13))]
      else if n = 11 then [(''prototype'', Data (Obj r 14))]
      else if n = 2 then [(''constructor'', Data (Obj r 8))]
      else if n = 4 then [(''addEventListener'', Data (Obj r 9))]
      else [])"
| "exDescriptors v = []"

fun exProperty :: "val \<Rightarrow> pname \<Rightarrow> val" where
  "exProperty (Obj r n) key =
     (if n = 0 then
        (if key = ''window'' then Obj r 0
         else if key = ''document'' then Obj r 1
         else if key = ''eval'' then Obj r 20
         else if key = ''Array'' then Obj r 10
         else if key = ''TypeError'' then Obj r 11
         else if key = ''SharedArrayBuffer'' \<and> r = Raw then Obj r 12
         else Undefined)
      else Undefined)"
| "exProperty v key = Undefined"

definition exEval :: "val \<Rightarrow> string \<Rightarrow> val completion" where
  "exEval f src =
     (if f = Obj Secure 20 then
        (if src = ''window'' then Normal (Obj Secure 0)
         else if src = ''throw null'' then Throw Null
         else if src = ''throw new TypeError(`bad`)'' then Throw (Obj Secure 30)
         else if src = ''throw new (class Oops {message = `oops`})'' then Throw (Obj Secure 31)
         else if src = ''throw {get message() {throw secret}}'' then Throw (Obj Secure 32)
         else Normal Undefined)
      else Throw RawTypeError)"

definition exGet :: "val \<Rightarrow> pname \<Rightarrow> val completion" where
  "exGet v key =
     (if v = Obj Secure 30 then
        (if key = ''message'' then Normal (Str ''bad'')
         else if key = ''constructor'' then Normal (Obj Secure 11)
         else Normal Undefined)
      else if v = Obj Secure 31 then
        (if key = ''message'' then Normal (Str ''oops'')
         else if key = ''constructor'' then Normal (Obj Secure 40)
         else Normal Undefined)
      else if v = Obj Secure 32 then
        (if key = ''message'' then Throw (Obj Secure 33)
         else if key = ''constructor'' then Normal (Obj Secure 41)
         else Normal Undefined)
      else Normal Undefined)"

definition exConstruct :: "val \<Rightarrow> val list \<Rightarrow> val completion" where
  "exConstruct f args =
     (if f = Obj Raw 11 then Normal (Obj Raw 60)
      else if f = Obj Secure 11 then Normal (Obj Secure 60)
      else Throw RawTypeError)"

definition exHost :: host where
  "exHost =
     \<lparr>globalWindow = Obj Raw 0, globalDocument = Obj Raw 1, iframeWindow = Obj Secure 0,
      ReflectGetPrototypeOf = exProto, getOwnPropertyDescriptors = exDescriptors,
      readProperty = exProperty, callEval = exEval, getOf = exGet,
      construct = exConstruct\<rparr>"

text \<open>
  The same browser at a later time: the prototype of the raw window has been replaced by
  object 70.
\<close>

definition exHostLater :: host where
  "exHostLater =
     exHost\<lparr>ReflectGetPrototypeOf :=
              (\<lambda>v. if v = Obj Raw 0 then Obj Raw 70 else exProto v)\<rparr>"

definition exNames :: "pname list" where
  "exNames = [''Array'', ''SharedArrayBuffer'', ''TypeError'']"

text \<open>A registration of the membrane, written as the call that submitted it.\<close>

fun registrationCall :: "val \<times> val \<times> descriptors \<Rightarrow> event" where
  "registrationCall (s, r, d) = Remap s r d"

text \<open>
  The membrane's registrations are exactly the \<^verbatim>\<open>remap\<close> calls recorded so far, in the
  same order.
\<close>

definition logged :: "cstate \<Rightarrow> bool" where
  "logged st \<longleftrightarrow>
     map registrationCall (registrations (membraneOf st)) = filter isRemap (calls st)"

text \<open>
  What the construction computes on the concrete host: the local constants after line 56,
  the calls of the provisioning, and the closure that is returned, at module load time
  and at the later time.
\<close>

definition exLocals :: locals where
  "exLocals =
     \<lparr>secureWindow = Obj Secure 0,
      secureIndirectEval = Obj Secure 20,
      secureDocument = Obj Secure 1,
      secureWindowProto = Obj Secure 2,
      secureWindowPropertiesProto = Obj Secure 3,
      secureEventTargetProto = Obj Secure 4,
      rawDocumentProto = Obj Raw 5,
      rawGlobalThisDescriptors =
        [(''Array'', Data (Obj Raw 10)),
         (''TypeError'', Data (Obj Raw 11)),
         (''name'', Data (Str []))],
      rawWindowProtoDescriptors = [(''constructor'', Data (Obj Raw 8))],
      rawWindowPropertiesProtoDescriptors = [],
      rawEventTargetProtoDescriptors = [(''addEventListener'', Data (Obj Raw 9))]\<rparr>"

definition exProvisioning :: "event list" where
  "exProvisioning = attachIframe @ [CallEval (Obj Secure 20) ''window'', IframeRemove]"

definition exClosure :: closure where
  "exClosure =
     (let st = registerAll exNames (loadModule exHost) exHost None exLocals exProvisioning
      in \<lparr>env = membraneOf st, indirectEval = Obj Secure 20, trace = calls st\<rparr>)"

definition exClosureLater :: closure where
  "exClosureLater =
     (let st = registerAll exNames (loadModule exHost) exHostLater None exLocals
                 exProvisioning
      in \<lparr>env = membraneOf st, indirectEval = Obj Secure 20, trace = calls st\<rparr>)"

section \<open>Properties of the registration phase\<close>

lemma calls_callRemap: "calls (callRemap a b d st) = calls st @ [Remap a b d]"
  by (simp add: callRemap_def)

lemma globalDescriptors_callRemap: "globalDescriptors (callRemap a b d st) = globalDescriptors st"
  by (simp add: callRemap_def)

lemma calls_remapReflective:
  "calls (remapReflective h rw sw names st) =
     calls st @ map (reflectiveCall h rw sw) (presentOnBoth h rw sw names)"
proof (induction names arbitrary: st)
  case Nil
  show ?case by (simp add: presentOnBoth_def)
next
  case (Cons key rest)
  show ?case
    using Cons.IH
    by (simp add: presentOnBoth_def calls_callRemap reflectiveCall_def)
qed

lemma globalDescriptors_remapReflective:
  "globalDescriptors (remapReflective h rw sw names st) =
     filter (\<lambda>p. fst p \<notin> set (presentOnBoth h rw sw names)) (globalDescriptors st)"
proof (induction names arbitrary: st)
  case Nil
  show ?case by (simp add: presentOnBoth_def)
next
  case (Cons key rest)
  show ?case
    using Cons.IH
    by (auto simp add: presentOnBoth_def globalDescriptors_callRemap deleteKey_def
          intro!: filter_cong)
qed

lemma keys_deleteKey: "keys (deleteKey k d) = keys d - {k}"
  by (auto simp add: keys_def deleteKey_def)

lemma keys_removeProblematic: "keys (removeProblematic d) = keys d - denylist"
  by (auto simp add: removeProblematic_def keys_deleteKey denylist_def)

lemma keys_filter_subset: "keys (filter P d) \<subseteq> keys d"
  by (auto simp add: keys_def)

lemma denylist_free_filter:
  "keys d \<inter> denylist = {} \<Longrightarrow> keys (filter P d) \<inter> denylist = {}"
  using keys_filter_subset [of P d] by blast

lemma calls_registerAll:
  "calls (registerAll names m h dm l t) =
     t @ [NewSecureEnvironment (rawWindow m) (secureWindow l),
          Remap (secureDocument l) (rawDocument m) [],
          GetSecureValue (rawDocumentProto l),
          SetPrototypeOf (secureDocument l)
            (getSecureValue
               (remap (newSecureEnvironment (rawWindow m) (secureWindow l) dm)
                  (secureDocument l) (rawDocument m) [])
               (rawDocumentProto l))]
       @ map (reflectiveCall h (rawWindow m) (secureWindow l))
           (presentOnBoth h (rawWindow m) (secureWindow l) names)
       @ [Remap (secureEventTargetProto l) (rawEventTargetProto m)
            (rawEventTargetProtoDescriptors l),
          Remap (secureWindowPropertiesProto l) (rawWindowPropertiesProto m)
            (rawWindowPropertiesProtoDescriptors l),
          Remap (secureWindowProto l) (rawWindowProto m) (rawWindowProtoDescriptors l),
          Remap (secureWindow l) (rawWindow m)
            (filter (\<lambda>p. fst p \<notin> set (presentOnBoth h (rawWindow m) (secureWindow l) names))
               (rawGlobalThisDescriptors l))]"
  by (simp add: registerAll_def Let_def calls_callRemap calls_remapReflective
        globalDescriptors_callRemap globalDescriptors_remapReflective callRemap_def)

lemma provisionAndCapture_Normal:
  assumes "provisionAndCapture m h = Normal (l, t)"
  shows "t = attachIframe @ [CallEval (readProperty h (iframeWindow h) ''eval'') ''window'', IframeRemove]"
    and "secureWindow l = iframeWindow h"
    and "secureIndirectEval l = readProperty h (iframeWindow h) ''eval''"
    and "secureDocument l = readProperty h (iframeWindow h) ''document''"
    and "secureWindowProto l = ReflectGetPrototypeOf h (iframeWindow h)"
    and "secureWindowPropertiesProto l = ReflectGetPrototypeOf h (ReflectGetPrototypeOf h (iframeWindow h))"
    and "secureEventTargetProto l = ReflectGetPrototypeOf h (ReflectGetPrototypeOf h (ReflectGetPrototypeOf h (iframeWindow h)))"
    and "rawDocumentProto l = ReflectGetPrototypeOf h (rawDocument m)"
    and "rawGlobalThisDescriptors l = removeProblematic (getOwnPropertyDescriptors h (rawWindow m))"
    and "rawWindowProtoDescriptors l = getOwnPropertyDescriptors h (rawWindowProto m)"
    and "rawWindowPropertiesProtoDescriptors l = getOwnPropertyDescriptors h (rawWindowPropertiesProto m)"
    and "rawEventTargetProtoDescriptors l = getOwnPropertyDescriptors h (rawEventTargetProto m)"
  using assms
  by (auto simp add: provisionAndCapture_def Let_def split: completion.splits)

lemma createSecureEnvironment_Normal:
  assumes "createSecureEnvironment names m h dm = Normal sb"
  obtains l t where "provisionAndCapture m h = Normal (l, t)"
    and "sb = \<lparr>env = membraneOf (registerAll names m h dm l t),
               indirectEval = secureIndirectEval l,
               trace = calls (registerAll names m h dm l t)\<rparr>"
  using assms
  by (auto simp add: createSecureEnvironment_def Let_def split: completion.splits)

lemma rawGlobalThis_callRemap:
  "rawGlobalThis (membraneOf (callRemap a b d st)) = rawGlobalThis (membraneOf st)"
  by (simp add: callRemap_def remap_def)

lemma rawGlobalThis_remapReflective:
  "rawGlobalThis (membraneOf (remapReflective h rw sw names st)) =
     rawGlobalThis (membraneOf st)"
  by (induction names arbitrary: st) (simp_all add: rawGlobalThis_callRemap)

lemma rawGlobalThis_registerAll:
  "rawGlobalThis (membraneOf (registerAll names m h dm l t)) = rawWindow m"
  by (simp add: registerAll_def Let_def rawGlobalThis_callRemap
        rawGlobalThis_remapReflective newSecureEnvironment_def)

lemma logged_callRemap: "logged st \<Longrightarrow> logged (callRemap a b d st)"
  by (simp add: logged_def callRemap_def remap_def)

lemma logged_remapReflective: "logged st \<Longrightarrow> logged (remapReflective h rw sw names st)"
proof (induction names arbitrary: st)
  case Nil
  then show ?case by simp
next
  case (Cons key rest)
  have "logged (st\<lparr>globalDescriptors := deleteKey key (globalDescriptors st)\<rparr>)"
    using Cons.prems by (simp add: logged_def)
  then show ?case
    using Cons by (simp add: logged_callRemap)
qed

lemma logged_registerAll:
  assumes "\<not> list_ex isRemap t"
  shows "logged (registerAll names m h dm l t)"
proof -
  have none: "filter isRemap t = []"
    using assms by (simp add: list_ex_iff filter_empty_conv)
  let ?st0 = "\<lparr>globalDescriptors = rawGlobalThisDescriptors l,
               membraneOf = newSecureEnvironment (rawWindow m) (secureWindow l) dm,
               calls = t @ [NewSecureEnvironment (rawWindow m) (secureWindow l)]\<rparr>"
  let ?st1 = "callRemap (secureDocument l) (rawDocument m) [] ?st0"
  let ?st2 = "?st1\<lparr>calls := calls ?st1 @
                [GetSecureValue (rawDocumentProto l),
                 SetPrototypeOf (secureDocument l)
                   (getSecureValue (membraneOf ?st1) (rawDocumentProto l))]\<rparr>"
  have "logged ?st0"
    by (simp add: logged_def newSecureEnvironment_def none)
  then have "logged ?st1"
    by (rule logged_callRemap)
  then have "logged ?st2"
    by (simp add: logged_def)
  then have "logged (remapReflective h (rawWindow m) (secureWindow l) names ?st2)"
    by (rule logged_remapReflective)
  then show ?thesis
    by (simp add: registerAll_def Let_def logged_callRemap)
qed

section \<open>The construction on the concrete host\<close>

lemma exHost_fields:
  "globalWindow exHost = Obj Raw 0"
  "globalDocument exHost = Obj Raw 1"
  "iframeWindow exHost = Obj Secure 0"
  "ReflectGetPrototypeOf exHost = exProto"
  "getOwnPropertyDescriptors exHost = exDescriptors"
  "readProperty exHost = exProperty"
  "callEval exHost = exEval"
  "getOf exHost = exGet"
  "construct exHost = exConstruct"
  by (simp_all add: exHost_def)

lemma exHostLater_fields:
  "globalWindow exHostLater = Obj Raw 0"
  "globalDocument exHostLater = Obj Raw 1"
  "iframeWindow exHostLater = Obj Secure 0"
  "ReflectGetPrototypeOf exHostLater = (\<lambda>v. if v = Obj Raw 0 then Obj Raw 70 else exProto v)"
  "getOwnPropertyDescriptors exHostLater = exDescriptors"
  "readProperty exHostLater = exProperty"
  "callEval exHostLater = exEval"
  "getOf exHostLater = exGet"
  "construct exHostLater = exConstruct"
  by (simp_all add: exHostLater_def exHost_def)

lemma ex_provision_later:
  "provisionAndCapture (loadModule exHost) exHostLater = Normal (exLocals, exProvisioning)"
  by (simp add: provisionAndCapture_def loadModule_def exHost_fields exHostLater_fields
        exEval_def Let_def exLocals_def exProvisioning_def removeProblematic_def
        deleteKey_def)

lemma ex_created_later:
  "createSecureEnvironment exNames (loadModule exHost) exHostLater None =
     Normal exClosureLater"
  by (simp add: createSecureEnvironment_def ex_provision_later exClosureLater_def Let_def
        exLocals_def)

lemma ex_provision:
  "provisionAndCapture (loadModule exHost) exHost = Normal (exLocals, exProvisioning)"
  by (simp add: provisionAndCapture_def loadModule_def exHost_fields exEval_def Let_def
        exLocals_def exProvisioning_def removeProblematic_def deleteKey_def)

lemma ex_created:
  "createSecureEnvironment exNames (loadModule exHost) exHost None = Normal exClosure"
  by (simp add: createSecureEnvironment_def ex_provision exClosure_def Let_def exLocals_def)

lemma indirectEval_exClosure: "indirectEval exClosure = Obj Secure 20"
  by (simp add: exClosure_def Let_def)

lemma ex_oops_thrown:
  "callEval exHost (indirectEval exClosure) ''throw new (class Oops {message = `oops`})'' =
     Throw (Obj Secure 31)"
  by (simp add: indirectEval_exClosure exHost_fields exEval_def)

lemma ex_oops_destructured:
  "destructure exHost (Obj Secure 31) = Normal (Str ''oops'', Obj Secure 40)"
  by (simp add: destructure_def exHost_fields exGet_def)

lemma ex_oops_unmapped: "getRawRef (env exClosure) (Obj Secure 40) = None"
  by (simp add: exClosure_def Let_def registerAll_def callRemap_def remap_def
        getRawRef_def newSecureEnvironment_def exNames_def exLocals_def loadModule_def
        exHost_fields)

lemma ex_null_thrown:
  "callEval exHost (indirectEval exClosure) ''throw null'' = Throw Null"
  by (simp add: indirectEval_exClosure exHost_fields exEval_def)

section \<open>The reflective global re-exposer\<close>

text \<open>
  Claim C1 says that for every name of the reflective list that is a defined value on
  both windows, the loop deletes the name from the filtered descriptor set and calls
  \<^verbatim>\<open>remap\<close> with the secure value as first argument, the raw value as second argument
  and the descriptors of the raw value. The code of line 73 passes the two values in the
  other order. On the concrete host the names \<^verbatim>\<open>Array\<close> and \<^verbatim>\<open>TypeError\<close> are defined on
  both windows; the registrations that the construction submits are computed below, each
  a triple (first argument, second argument, descriptors). The two made by line 73 hold
  the raw constructor first and the secure constructor second, while the five others
  hold the secure node first.
\<close>

theorem reflective_remap_passes_raw_value_first:
  "(case createSecureEnvironment exNames (loadModule exHost) exHost None of
      Throw x \<Rightarrow> []
    | Normal sb \<Rightarrow> registrations (env sb)) =
   [(Obj Secure 1, Obj Raw 1, []),
    (Obj Raw 10, Obj Secure 10, [(''isArray'', Data (Obj Raw 13))]),
    (Obj Raw 11, Obj Secure 11, [(''prototype'', Data (Obj Raw 14))]),
    (Obj Secure 4, Obj Raw 4, [(''addEventListener'', Data (Obj Raw 9))]),
    (Obj Secure 3, Obj Raw 3, []),
    (Obj Secure 2, Obj Raw 2, [(''constructor'', Data (Obj Raw 8))]),
    (Obj Secure 0, Obj Raw 0, [(''name'', Data (Str []))])]"
  by (simp add: createSecureEnvironment_def provisionAndCapture_def registerAll_def
        loadModule_def exHost_fields exEval_def exNames_def Let_def callRemap_def remap_def
        newSecureEnvironment_def removeProblematic_def deleteKey_def)

text \<open>
  Claim C2 says that after the construction \<^verbatim>\<open>getRawRef(secureGlobal[name])\<close> is
  \<^verbatim>\<open>rawGlobal[name]\<close> for every reflective name defined on both windows. On the concrete
  host the name \<^verbatim>\<open>TypeError\<close> is defined on both windows, as secure object 11 and as raw
  object 11, and after the construction the secure constructor has no raw counterpart in
  the membrane: line 73 registered it as the raw side of the pair.
\<close>

theorem reflective_name_not_resolved_to_raw:
  "(case createSecureEnvironment exNames (loadModule exHost) exHost None of
      Throw x \<Rightarrow> None
    | Normal sb \<Rightarrow>
        Some (readProperty exHost (iframeWindow exHost) ''TypeError'',
              readProperty exHost (globalWindow exHost) ''TypeError'',
              getRawRef (env sb) (readProperty exHost (iframeWindow exHost) ''TypeError''))) =
   Some (Obj Secure 11, Obj Raw 11, None)"
  by (simp add: createSecureEnvironment_def provisionAndCapture_def registerAll_def
        loadModule_def exHost_fields exEval_def exNames_def Let_def callRemap_def remap_def
        newSecureEnvironment_def getRawRef_def)

section \<open>The descriptor filter and the order of the calls\<close>

text \<open>
  Claim C4: every denylisted name is removed from the captured descriptor set of the raw
  window before any registration, and the descriptor set passed to the final \<^verbatim>\<open>remap\<close>
  of the window holds no denylisted name. When the construction returns, the descriptor
  set that stands after line 56 holds no denylisted name and the calls made until then
  contain no \<^verbatim>\<open>remap\<close>; the last call of the construction is the \<^verbatim>\<open>remap\<close> of the two
  windows, and its descriptor set holds no denylisted name.
\<close>

theorem denylisted_names_filtered_before_registration:
  assumes "createSecureEnvironment names m h dm = Normal sb"
  shows "\<exists>l t rest d.
           provisionAndCapture m h = Normal (l, t) \<and>
           keys (rawGlobalThisDescriptors l) \<inter> denylist = {} \<and>
           \<not> list_ex isRemap t \<and>
           trace sb = t @ rest @ [Remap (iframeWindow h) (rawWindow m) d] \<and>
           keys d \<inter> denylist = {}"
proof -
  from assms obtain l t where
    pc: "provisionAndCapture m h = Normal (l, t)" and
    sb: "sb = \<lparr>env = membraneOf (registerAll names m h dm l t),
               indirectEval = secureIndirectEval l,
               trace = calls (registerAll names m h dm l t)\<rparr>"
    by (rule createSecureEnvironment_Normal)
  let ?d = "filter (\<lambda>p. fst p \<notin> set (presentOnBoth h (rawWindow m) (secureWindow l) names))
              (rawGlobalThisDescriptors l)"
  have filtered: "keys (rawGlobalThisDescriptors l) \<inter> denylist = {}"
    using provisionAndCapture_Normal(9) [OF pc] by (auto simp add: keys_removeProblematic)
  have t: "\<not> list_ex isRemap t"
    using provisionAndCapture_Normal(1) [OF pc] by (simp add: attachIframe_def)
  have "\<exists>rest. trace sb = t @ rest @ [Remap (iframeWindow h) (rawWindow m) ?d]"
    using provisionAndCapture_Normal(2) [OF pc]
    by (simp add: sb calls_registerAll)
  moreover have "keys ?d \<inter> denylist = {}"
    using filtered by (rule denylist_free_filter)
  ultimately show ?thesis
    using pc filtered t by blast
qed

theorem denylisted_names_filtered_before_registration_witness:
  "createSecureEnvironment exNames (loadModule exHost) exHost None = Normal exClosure \<and>
   (\<exists>l t rest d.
      provisionAndCapture (loadModule exHost) exHost = Normal (l, t) \<and>
      keys (rawGlobalThisDescriptors l) \<inter> denylist = {} \<and>
      \<not> list_ex isRemap t \<and>
      trace exClosure =
        t @ rest @ [Remap (iframeWindow exHost) (rawWindow (loadModule exHost)) d] \<and>
      keys d \<inter> denylist = {})"
  using ex_created denylisted_names_filtered_before_registration [OF ex_created]
  by (rule conjI)

text \<open>
  Claim C5: the registrations are made in this order: the document pair first, with an
  empty descriptor set; then the prototype of the secure document is set to the value
  that \<^verbatim>\<open>getSecureValue\<close> gives for the prototype of the raw document; then the reflective
  names defined on both windows, in the order of the list; then the three spine nodes,
  from the most deeply nested one outward; and the window pair last.
\<close>

theorem registration_order:
  assumes "createSecureEnvironment names m h dm = Normal sb"
  shows "\<exists>l t d.
           provisionAndCapture m h = Normal (l, t) \<and>
           \<not> list_ex isRemap t \<and>
           secureWindowProto l = ReflectGetPrototypeOf h (secureWindow l) \<and>
           secureWindowPropertiesProto l = ReflectGetPrototypeOf h (secureWindowProto l) \<and>
           secureEventTargetProto l =
             ReflectGetPrototypeOf h (secureWindowPropertiesProto l) \<and>
           trace sb =
             t @ [NewSecureEnvironment (rawWindow m) (secureWindow l),
                  Remap (secureDocument l) (rawDocument m) [],
                  GetSecureValue (rawDocumentProto l),
                  SetPrototypeOf (secureDocument l)
                    (getSecureValue
                       (remap (newSecureEnvironment (rawWindow m) (secureWindow l) dm)
                          (secureDocument l) (rawDocument m) [])
                       (rawDocumentProto l))]
               @ map (reflectiveCall h (rawWindow m) (secureWindow l))
                   (presentOnBoth h (rawWindow m) (secureWindow l) names)
               @ [Remap (secureEventTargetProto l) (rawEventTargetProto m)
                    (rawEventTargetProtoDescriptors l),
                  Remap (secureWindowPropertiesProto l) (rawWindowPropertiesProto m)
                    (rawWindowPropertiesProtoDescriptors l),
                  Remap (secureWindowProto l) (rawWindowProto m)
                    (rawWindowProtoDescriptors l),
                  Remap (secureWindow l) (rawWindow m) d]"
proof -
  from assms obtain l t where
    pc: "provisionAndCapture m h = Normal (l, t)" and
    sb: "sb = \<lparr>env = membraneOf (registerAll names m h dm l t),
               indirectEval = secureIndirectEval l,
               trace = calls (registerAll names m h dm l t)\<rparr>"
    by (rule createSecureEnvironment_Normal)
  have t: "\<not> list_ex isRemap t"
    using provisionAndCapture_Normal(1) [OF pc] by (simp add: attachIframe_def)
  have spine:
    "secureWindowProto l = ReflectGetPrototypeOf h (secureWindow l)"
    "secureWindowPropertiesProto l = ReflectGetPrototypeOf h (secureWindowProto l)"
    "secureEventTargetProto l = ReflectGetPrototypeOf h (secureWindowPropertiesProto l)"
    using provisionAndCapture_Normal(2,5,6,7) [OF pc] by simp_all
  have "trace sb = calls (registerAll names m h dm l t)"
    by (simp add: sb)
  with pc t spine show ?thesis
    unfolding calls_registerAll by blast
qed

theorem registration_order_witness:
  "createSecureEnvironment exNames (loadModule exHost) exHost None = Normal exClosure \<and>
   (\<exists>l t d.
      provisionAndCapture (loadModule exHost) exHost = Normal (l, t) \<and>
      \<not> list_ex isRemap t \<and>
      secureWindowProto l = ReflectGetPrototypeOf exHost (secureWindow l) \<and>
      secureWindowPropertiesProto l = ReflectGetPrototypeOf exHost (secureWindowProto l) \<and>
      secureEventTargetProto l =
        ReflectGetPrototypeOf exHost (secureWindowPropertiesProto l) \<and>
      trace exClosure =
        t @ [NewSecureEnvironment (rawWindow (loadModule exHost)) (secureWindow l),
             Remap (secureDocument l) (rawDocument (loadModule exHost)) [],
             GetSecureValue (rawDocumentProto l),
             SetPrototypeOf (secureDocument l)
               (getSecureValue
                  (remap (newSecureEnvironment (rawWindow (loadModule exHost))
                            (secureWindow l) None)
                     (secureDocument l) (rawDocument (loadModule exHost)) [])
                  (rawDocumentProto l))]
          @ map (reflectiveCall exHost (rawWindow (loadModule exHost)) (secureWindow l))
              (presentOnBoth exHost (rawWindow (loadModule exHost)) (secureWindow l) exNames)
          @ [Remap (secureEventTargetProto l) (rawEventTargetProto (loadModule exHost))
               (rawEventTargetProtoDescriptors l),
             Remap (secureWindowPropertiesProto l)
               (rawWindowPropertiesProto (loadModule exHost))
               (rawWindowPropertiesProtoDescriptors l),
             Remap (secureWindowProto l) (rawWindowProto (loadModule exHost))
               (rawWindowProtoDescriptors l),
             Remap (secureWindow l) (rawWindow (loadModule exHost)) d])"
  using ex_created registration_order [OF ex_created]
  by (rule conjI)

text \<open>
  Claim C7: the construction evaluates the source text \<^verbatim>\<open>window\<close> with the indirect
  evaluator of the secure window before it removes the iframe, and it removes the iframe
  before any registration. The calls start with the four calls that attach the iframe,
  the forced evaluation and the removal; the iframe is not removed again, and every
  registration of the membrane is a \<^verbatim>\<open>remap\<close> call made after the removal.
\<close>

theorem forced_evaluation_before_removal_before_registration:
  assumes "createSecureEnvironment names m h dm = Normal sb"
  shows "\<exists>rest.
           trace sb =
             [CreateElement ''iframe'',
              SetAttribute ''sandbox'' ''allow-same-origin allow-scripts'',
              SetStyle ''display'' ''none'',
              AppendChild,
              CallEval (readProperty h (iframeWindow h) ''eval'') ''window'',
              IframeRemove] @ rest \<and>
           IframeRemove \<notin> set rest \<and>
           map registrationCall (registrations (env sb)) = filter isRemap rest"
proof -
  from assms obtain l t where
    pc: "provisionAndCapture m h = Normal (l, t)" and
    sb: "sb = \<lparr>env = membraneOf (registerAll names m h dm l t),
               indirectEval = secureIndirectEval l,
               trace = calls (registerAll names m h dm l t)\<rparr>"
    by (rule createSecureEnvironment_Normal)
  have t: "t = [CreateElement ''iframe'',
              SetAttribute ''sandbox'' ''allow-same-origin allow-scripts'',
              SetStyle ''display'' ''none'',
              AppendChild,
              CallEval (readProperty h (iframeWindow h) ''eval'') ''window'',
              IframeRemove]"
    using provisionAndCapture_Normal(1) [OF pc] by (simp add: attachIframe_def)
  then have no: "\<not> list_ex isRemap t"
    by simp
  obtain rest where rest: "calls (registerAll names m h dm l t) = t @ rest"
    and norem: "IframeRemove \<notin> set rest"
    unfolding calls_registerAll by (auto simp add: reflectiveCall_def)
  have "logged (registerAll names m h dm l t)"
    using no by (rule logged_registerAll)
  then have "map registrationCall (registrations (env sb)) = filter isRemap rest"
    using no by (simp add: logged_def sb rest list_ex_iff filter_empty_conv)
  then show ?thesis
    using rest norem by (auto simp add: sb t)
qed

theorem forced_evaluation_before_removal_before_registration_witness:
  "createSecureEnvironment exNames (loadModule exHost) exHost None = Normal exClosure \<and>
   (\<exists>rest.
      trace exClosure =
        [CreateElement ''iframe'',
         SetAttribute ''sandbox'' ''allow-same-origin allow-scripts'',
         SetStyle ''display'' ''none'',
         AppendChild,
         CallEval (readProperty exHost (iframeWindow exHost) ''eval'') ''window'',
         IframeRemove] @ rest \<and>
      IframeRemove \<notin> set rest \<and>
      map registrationCall (registrations (env exClosure)) = filter isRemap rest)"
  using ex_created forced_evaluation_before_removal_before_registration [OF ex_created]
  by (rule conjI)

text \<open>
  Claim C10: the raw window, its three prototypes and the raw document are read once,
  when the module is loaded; a later call of \<^verbatim>\<open>createSecureEnvironment\<close> uses these
  values and does not read them again from the host. For a module loaded on the host
  \<open>h0\<close> and a call made on any host \<open>h\<close>, the raw side of the membrane and the raw
  nodes of the document, spine and window registrations are the values read from
  \<open>h0\<close>.
\<close>

theorem raw_nodes_are_those_of_module_load:
  assumes "createSecureEnvironment names (loadModule h0) h dm = Normal sb"
  shows "\<exists>t mid s0 s1 s2 s3 s4 d1 d2 d3 d4.
           rawGlobalThis (env sb) = globalWindow h0 \<and>
           trace sb =
             t @ [NewSecureEnvironment (globalWindow h0) s4,
                  Remap s0 (globalDocument h0) []]
               @ mid
               @ [Remap s1
                    (ReflectGetPrototypeOf h0 (ReflectGetPrototypeOf h0
                       (ReflectGetPrototypeOf h0 (globalWindow h0)))) d1,
                  Remap s2
                    (ReflectGetPrototypeOf h0 (ReflectGetPrototypeOf h0 (globalWindow h0)))
                    d2,
                  Remap s3 (ReflectGetPrototypeOf h0 (globalWindow h0)) d3,
                  Remap s4 (globalWindow h0) d4]"
proof -
  from assms obtain l t where
    pc: "provisionAndCapture (loadModule h0) h = Normal (l, t)" and
    sb: "sb = \<lparr>env = membraneOf (registerAll names (loadModule h0) h dm l t),
               indirectEval = secureIndirectEval l,
               trace = calls (registerAll names (loadModule h0) h dm l t)\<rparr>"
    by (rule createSecureEnvironment_Normal)
  have g: "rawGlobalThis (membraneOf (registerAll names (loadModule h0) h dm l t)) =
             globalWindow h0"
    by (simp add: rawGlobalThis_registerAll loadModule_def Let_def)
  have "trace sb = calls (registerAll names (loadModule h0) h dm l t)"
    by (simp add: sb)
  then show ?thesis
    unfolding calls_registerAll
    apply (simp add: sb g)
    apply (simp add: loadModule_def Let_def)
    by blast
qed

theorem raw_nodes_are_those_of_module_load_witness:
  "createSecureEnvironment exNames (loadModule exHost) exHostLater None =
     Normal exClosureLater \<and>
   (\<exists>t mid s0 s1 s2 s3 s4 d1 d2 d3 d4.
      rawGlobalThis (env exClosureLater) = globalWindow exHost \<and>
      trace exClosureLater =
        t @ [NewSecureEnvironment (globalWindow exHost) s4,
             Remap s0 (globalDocument exHost) []]
          @ mid
          @ [Remap s1
               (ReflectGetPrototypeOf exHost (ReflectGetPrototypeOf exHost
                  (ReflectGetPrototypeOf exHost (globalWindow exHost)))) d1,
             Remap s2
               (ReflectGetPrototypeOf exHost (ReflectGetPrototypeOf exHost
                  (globalWindow exHost)))
               d2,
             Remap s3 (ReflectGetPrototypeOf exHost (globalWindow exHost)) d3,
             Remap s4 (globalWindow exHost) d4])"
  using ex_created_later raw_nodes_are_those_of_module_load [OF ex_created_later]
  by (rule conjI)

section \<open>The error boundary of the evaluator\<close>

text \<open>
  Claim C3 says that whatever the evaluated source throws, the evaluator throws a newly
  constructed raw-realm error, made from the captured constructor and message or, as a
  fallback, a generic raw error carrying the message, and never a secure-realm value.
  On the concrete host, the source that throws \<^verbatim>\<open>null\<close> makes the evaluator throw the
  \<^verbatim>\<open>TypeError\<close> of the destructuring of line 92, and the source that throws an object
  whose \<^verbatim>\<open>message\<close> getter throws makes the evaluator throw the secure object 33 that
  the getter threw.
\<close>

theorem thrown_null_and_throwing_getter_escape:
  "(case createSecureEnvironment exNames (loadModule exHost) exHost None of
      Throw x \<Rightarrow> []
    | Normal sb \<Rightarrow>
        [fst (evaluator exHost sb ''throw null''),
         fst (evaluator exHost sb ''throw {get message() {throw secret}}'')]) =
   [Throw RawTypeError, Throw (Obj Secure 33)]"
  by (simp add: ex_created indirectEval_exClosure evaluator_def destructure_def Let_def
        exHost_fields exEval_def exGet_def)

text \<open>
  When both reads of line 92 return, a constructor without a registered raw counterpart
  ends in the fallback: the evaluator throws the generic raw error made from the message
  that was read, after the evaluation, the lookup of the constructor and the creation of
  the generic error.
\<close>

lemma fallback_when_reads_return:
  assumes "callEval h (indirectEval sb) src = Throw e"
    and "destructure h e = Normal (msg, ctor)"
    and "getRawRef (env sb) ctor = None"
  shows "evaluator h sb src =
           (Throw (ErrorCreate msg),
            sb\<lparr>trace := trace sb @
                  [CallEval (indirectEval sb) src, GetRawRef ctor, CreateError msg]\<rparr>)"
  using assms by (simp add: evaluator_def Let_def)

lemma fallback_for_unmapped_class:
  "fst (evaluator exHost exClosure ''throw new (class Oops {message = `oops`})'') =
     Throw (RawError (Str ''oops''))"
  using fallback_when_reads_return [OF ex_oops_thrown ex_oops_destructured ex_oops_unmapped]
  by (simp add: ErrorCreate_def)

text \<open>
  Claim C6 says that when the evaluated source throws a value whose constructor has no
  registered raw counterpart, the evaluator throws a generic raw error whose message is
  the message of the thrown value. On the concrete host, the source
  \<^verbatim>\<open>throw {get message() {throw secret}}\<close> throws the secure object 32, whose constructor
  is the secure object 41, and the membrane holds no raw counterpart of object 41. The
  read of \<^verbatim>\<open>message\<close> on line 92, outside the inner \<^verbatim>\<open>try\<close>, throws the secure object 33,
  and the evaluator throws that object: no lookup is made and no generic error is
  created.
\<close>

theorem unmapped_constructor_with_throwing_getter_escapes:
  "callEval exHost (indirectEval exClosure) ''throw {get message() {throw secret}}'' =
     Throw (Obj Secure 32) \<and>
   getOf exHost (Obj Secure 32) ''constructor'' = Normal (Obj Secure 41) \<and>
   getRawRef (env exClosure) (Obj Secure 41) = None \<and>
   getOf exHost (Obj Secure 32) ''message'' = Throw (Obj Secure 33) \<and>
   evaluator exHost exClosure ''throw {get message() {throw secret}}'' =
     (Throw (Obj Secure 33),
      exClosure\<lparr>trace := trace exClosure @
                  [CallEval (indirectEval exClosure)
                     ''throw {get message() {throw secret}}'']\<rparr>)"
proof -
  have unmapped: "getRawRef (env exClosure) (Obj Secure 41) = None"
    by (simp add: exClosure_def Let_def registerAll_def callRemap_def remap_def
          getRawRef_def newSecureEnvironment_def exNames_def exLocals_def loadModule_def
          exHost_fields)
  have thrown:
    "callEval exHost (indirectEval exClosure) ''throw {get message() {throw secret}}'' =
       Throw (Obj Secure 32)"
    by (simp add: indirectEval_exClosure exHost_fields exEval_def)
  have reads:
    "getOf exHost (Obj Secure 32) ''constructor'' = Normal (Obj Secure 41)"
    "getOf exHost (Obj Secure 32) ''message'' = Throw (Obj Secure 33)"
    by (simp_all add: exHost_fields exGet_def)
  have "destructure exHost (Obj Secure 32) = Throw (Obj Secure 33)"
    by (simp add: destructure_def reads)
  then have
    "evaluator exHost exClosure ''throw {get message() {throw secret}}'' =
       (Throw (Obj Secure 33),
        exClosure\<lparr>trace := trace exClosure @
                    [CallEval (indirectEval exClosure)
                       ''throw {get message() {throw secret}}'']\<rparr>)"
    by (simp add: evaluator_def Let_def thrown)
  with unmapped thrown reads show ?thesis
    by simp
qed

text \<open>
  Claim C8: a call of the evaluator leaves the mapping tables of the membrane unchanged.
  The membrane of the closure is the same after the call, and none of the calls that the
  evaluator adds is a \<^verbatim>\<open>remap\<close>.
\<close>

theorem evaluator_leaves_membrane_unchanged:
  "env (snd (evaluator h sb src)) = env sb \<and>
   (\<exists>new. trace (snd (evaluator h sb src)) = trace sb @ new \<and> \<not> list_ex isRemap new)"
  by (simp add: evaluator_def Let_def split: completion.split prod.split option.split)

theorem evaluator_leaves_membrane_unchanged_witness:
  "env (snd (evaluator exHost exClosure ''throw new TypeError(`bad`)'')) = env exClosure \<and>
   (\<exists>new. trace (snd (evaluator exHost exClosure ''throw new TypeError(`bad`)'')) =
            trace exClosure @ new \<and> \<not> list_ex isRemap new)"
  by (rule evaluator_leaves_membrane_unchanged)

text \<open>
  Claim C9: when the evaluated source throws \<^verbatim>\<open>null\<close> or \<^verbatim>\<open>undefined\<close>, the
  destructuring of line 92 throws before the inner \<^verbatim>\<open>try\<close> is entered. The evaluator
  throws the \<^verbatim>\<open>TypeError\<close> of its own code, which is no generic error made by
  \<^verbatim>\<open>ErrorCreate\<close>, and makes no call after the evaluation: no lookup, no construction
  and no creation of a generic error.
\<close>

theorem nullish_throw_ends_in_type_error:
  assumes "callEval h (indirectEval sb) src = Throw e"
    and "e = Null \<or> e = Undefined"
  shows "evaluator h sb src =
           (Throw RawTypeError, sb\<lparr>trace := trace sb @ [CallEval (indirectEval sb) src]\<rparr>) \<and>
         RawTypeError \<noteq> ErrorCreate msg"
  using assms by (auto simp add: evaluator_def destructure_def Let_def ErrorCreate_def)

theorem nullish_throw_ends_in_type_error_witness:
  "callEval exHost (indirectEval exClosure) ''throw null'' = Throw Null \<and>
   evaluator exHost exClosure ''throw null'' =
     (Throw RawTypeError,
      exClosure\<lparr>trace := trace exClosure @
                  [CallEval (indirectEval exClosure) ''throw null'']\<rparr>) \<and>
   RawTypeError \<noteq> ErrorCreate Undefined"
  using ex_null_thrown nullish_throw_ends_in_type_error [OF ex_null_thrown, of Undefined]
  by simp

end
